theory Spec2Isabelle
  imports Complex_Main "HOL-Library.Multiset"
begin

section \<open>Values of the two tables\<close>

text \<open>
  The script \<^verbatim>\<open>aggregate_data.py\<close> is one straight-line pandas/geopandas pipeline.
  Its numeric columns are float64 columns. A float is modelled by its value: a real
  number, one of the two infinities, or the single not-a-number value. Rounding and
  overflow of finite results are left out: arithmetic on finite values is exact.

  float64 has two zeros, and a division tells them apart. \<open>Fin 0\<close> is \<open>+0.0\<close> and
  \<open>NZero\<close> is \<open>-0.0\<close>, as a table can hold them. A zero that an operation computes
  is written \<open>Fin 0\<close> whatever its sign: the script never divides by a value it has
  computed, and a comparison does not see the sign.
\<close>

datatype pyfloat = Fin real | NZero | PInf | NInf | NaN

text \<open>
  \<^verbatim>\<open>a / b\<close> on float64 columns (line 32). numpy raises no exception: a non-zero
  value over zero is an infinity, with the sign of the value for \<open>+0.0\<close> and the
  opposite sign for \<open>-0.0\<close>; zero over zero and every operation on NaN is NaN.
\<close>

fun fdiv :: "pyfloat \<Rightarrow> pyfloat \<Rightarrow> pyfloat" where
  "fdiv NaN b = NaN"
| "fdiv a NaN = NaN"
| "fdiv (Fin a) (Fin b) =
     (if b = 0 then (if a = 0 then NaN else if 0 < a then PInf else NInf)
      else Fin (a / b))"
| "fdiv (Fin a) NZero = (if a = 0 then NaN else if 0 < a then NInf else PInf)"
| "fdiv NZero (Fin b) = (if b = 0 then NaN else Fin 0)"
| "fdiv NZero NZero = NaN"
| "fdiv (Fin a) PInf = Fin 0"
| "fdiv (Fin a) NInf = Fin 0"
| "fdiv NZero PInf = Fin 0"
| "fdiv NZero NInf = Fin 0"
| "fdiv PInf (Fin b) = (if 0 \<le> b then PInf else NInf)"
| "fdiv PInf NZero = NInf"
| "fdiv NInf (Fin b) = (if 0 \<le> b then NInf else PInf)"
| "fdiv NInf NZero = PInf"
| "fdiv PInf PInf = NaN"
| "fdiv PInf NInf = NaN"
| "fdiv NInf PInf = NaN"
| "fdiv NInf NInf = NaN"

text \<open>
  \<^verbatim>\<open>a <= b\<close> and \<^verbatim>\<open>a >= b\<close>: every comparison with NaN is False, and the two zeros
  compare equal.
\<close>

fun fle :: "pyfloat \<Rightarrow> pyfloat \<Rightarrow> bool" where
  "fle NaN b = False"
| "fle a NaN = False"
| "fle NInf b = True"
| "fle a PInf = True"
| "fle (Fin a) (Fin b) = (a \<le> b)"
| "fle (Fin a) NZero = (a \<le> 0)"
| "fle NZero (Fin b) = (0 \<le> b)"
| "fle NZero NZero = True"
| "fle (Fin a) NInf = False"
| "fle NZero NInf = False"
| "fle PInf b = False"

definition fge :: "pyfloat \<Rightarrow> pyfloat \<Rightarrow> bool" where
  "fge a b = fle b a"

text \<open>
  A cell as \<^verbatim>\<open>read_csv\<close> or \<^verbatim>\<open>read_file\<close> delivers it: a number, a text, or the
  missing marker.
\<close>

datatype cell = Num pyfloat | Text string | Missing

text \<open>
  Python's \<^verbatim>\<open>str.strip()\<close> with no argument removes the leading and trailing
  characters for which \<^verbatim>\<open>str.isspace\<close> holds. A \<^typ>\<open>char\<close> stands for a code point
  below 256; among those the whitespace characters are 9..13, 28..32, 133 and 160.
\<close>

definition isspace :: "char \<Rightarrow> bool" where
  "isspace c =
     (let n = (of_char c :: nat)
      in (9 \<le> n \<and> n \<le> 13) \<or> (28 \<le> n \<and> n \<le> 32) \<or> n = 133 \<or> n = 160)"

definition strip :: "string \<Rightarrow> string" where
  "strip s = rev (dropWhile isspace (rev (dropWhile isspace s)))"

section \<open>Library functions the script calls\<close>

text \<open>
  The functions of pandas, geopandas and shapely that the script calls are not part of
  the repository. They are parameters of the model, element by element:
  \<^item> \<open>astype_str\<close>: \<^verbatim>\<open>Series.astype(str)\<close> on one cell;
  \<^item> \<open>parse_num\<close>: the number \<^verbatim>\<open>pd.to_numeric\<close> reads from a text, if it reads one;
  \<^item> \<open>quantile\<close>: \<^verbatim>\<open>Series.quantile(q)\<close>, None when it raises;
  \<^item> \<open>to_crs\<close>: the reprojection of one geometry into the CRS with the given EPSG code;
  \<^item> \<open>buffer\<close>, \<open>unary_union\<close>, \<open>intersects\<close>: the shapely operations.
  Apart from \<open>quantile\<close> they are taken to return a value on every argument.
\<close>

record 'g lib =
  astype_str :: "cell \<Rightarrow> string"
  parse_num :: "string \<Rightarrow> pyfloat option"
  quantile :: "pyfloat list \<Rightarrow> real \<Rightarrow> pyfloat option"
  to_crs :: "nat \<Rightarrow> 'g \<Rightarrow> 'g"
  buffer :: "'g \<Rightarrow> real \<Rightarrow> 'g"
  unary_union :: "'g list \<Rightarrow> 'g"
  intersects :: "'g \<Rightarrow> 'g \<Rightarrow> bool"

section \<open>The tables\<close>

text \<open>
  A table is the list of its rows. Of the census table only the two columns the script
  selects (line 25) are kept; of the boundary table the three it uses. The types of the
  key and of the count change when the columns are normalised, so the rows are
  polymorphic in them.
\<close>

record ('k, 'c) housing_row =
  SA2_CODE_2021 :: 'k
  Total_Total :: 'c

record ('k, 'g) gdf_row =
  SA2_CODE21 :: 'k
  AREASQKM21 :: pyfloat
  geometry :: "'g option"

text \<open>
  The merged table has the columns of the boundary table and the two columns of the
  census table (grouped under \<open>housing_cols\<close>); line 32 adds \<open>housing_density\<close>.
\<close>

record 'g merged_row = "(string, 'g) gdf_row" +
  housing_cols :: "(string, pyfloat) housing_row"

record 'g region = "'g merged_row" +
  housing_density :: pyfloat

section \<open>Loading and joining (lines 16 to 32)\<close>

text \<open>Line 16: \<^verbatim>\<open>gdf['SA2_CODE21'].astype(str).str.strip()\<close>.\<close>

definition gdf_strip :: "'g lib \<Rightarrow> (cell, 'g) gdf_row list \<Rightarrow> (string, 'g) gdf_row list" where
  "gdf_strip L gdf =
     map (\<lambda>r. \<lparr>SA2_CODE21 = strip (astype_str L (SA2_CODE21 r)),
               AREASQKM21 = AREASQKM21 r, geometry = geometry r\<rparr>) gdf"

text \<open>Line 17: the same on the census table.\<close>

definition housing_strip ::
  "'g lib \<Rightarrow> (cell, cell) housing_row list \<Rightarrow> (string, cell) housing_row list" where
  "housing_strip L housing =
     map (\<lambda>h. \<lparr>SA2_CODE_2021 = strip (astype_str L (SA2_CODE_2021 h)),
               Total_Total = Total_Total h\<rparr>) housing"

text \<open>
  Line 20: \<^verbatim>\<open>pd.to_numeric(..., errors='coerce')\<close>. A number stays, a text becomes
  the number it reads as, and whatever does not read as a number becomes NaN.
\<close>

definition to_numeric_coerce :: "'g lib \<Rightarrow> cell \<Rightarrow> pyfloat" where
  "to_numeric_coerce L c =
     (case c of
        Num x \<Rightarrow> x
      | Text s \<Rightarrow> (case parse_num L s of Some x \<Rightarrow> x | None \<Rightarrow> NaN)
      | Missing \<Rightarrow> NaN)"

definition housing_to_numeric ::
  "'g lib \<Rightarrow> (string, cell) housing_row list \<Rightarrow> (string, pyfloat) housing_row list" where
  "housing_to_numeric L housing =
     map (\<lambda>h. \<lparr>SA2_CODE_2021 = SA2_CODE_2021 h,
               Total_Total = to_numeric_coerce L (Total_Total h)\<rparr>) housing"

text \<open>Line 21: \<^verbatim>\<open>housing.dropna(subset=['Total_Total'])\<close>.\<close>

definition dropna :: "(string, pyfloat) housing_row list \<Rightarrow> (string, pyfloat) housing_row list" where
  "dropna housing = filter (\<lambda>h. Total_Total h \<noteq> NaN) housing"

text \<open>Lines 17 to 21 together: the census table that reaches the merge.\<close>

definition housing_clean ::
  "'g lib \<Rightarrow> (cell, cell) housing_row list \<Rightarrow> (string, pyfloat) housing_row list" where
  "housing_clean L housing = dropna (housing_to_numeric L (housing_strip L housing))"

text \<open>
  Lines 24 to 29: \<^verbatim>\<open>gdf.merge(housing[...], left_on=..., right_on=..., how='inner')\<close>.
  One output row for every pair of a left row and a right row with equal keys, in the
  order of the left rows.
\<close>

definition merge_row :: "(string, 'g) gdf_row \<Rightarrow> (string, pyfloat) housing_row \<Rightarrow> 'g merged_row" where
  "merge_row g h =
     \<lparr>SA2_CODE21 = SA2_CODE21 g, AREASQKM21 = AREASQKM21 g, geometry = geometry g,
      housing_cols = h\<rparr>"

definition merge_inner ::
  "(string, 'g) gdf_row list \<Rightarrow> (string, pyfloat) housing_row list \<Rightarrow> 'g merged_row list" where
  "merge_inner gdf housing =
     concat (map (\<lambda>g. map (merge_row g)
                          (filter (\<lambda>h. SA2_CODE_2021 h = SA2_CODE21 g) housing)) gdf)"

text \<open>Line 32: \<^verbatim>\<open>gdf['housing_density'] = gdf['Total_Total'] / gdf['AREASQKM21']\<close>.\<close>

definition add_housing_density :: "'g merged_row list \<Rightarrow> 'g region list" where
  "add_housing_density gdf =
     map (\<lambda>r. \<lparr>SA2_CODE21 = SA2_CODE21 r, AREASQKM21 = AREASQKM21 r, geometry = geometry r,
               housing_cols = housing_cols r,
               housing_density = fdiv (Total_Total (housing_cols r)) (AREASQKM21 r)\<rparr>) gdf"

text \<open>Lines 16 to 32: the joined table with its density column.\<close>

definition gdf_joined ::
  "'g lib \<Rightarrow> (cell, 'g) gdf_row list \<Rightarrow> (cell, cell) housing_row list \<Rightarrow> 'g region list" where
  "gdf_joined L gdf housing =
     add_housing_density (merge_inner (gdf_strip L gdf) (housing_clean L housing))"

section \<open>Classification (lines 36 and 37)\<close>

definition high_density_threshold :: "'g lib \<Rightarrow> 'g region list \<Rightarrow> pyfloat option" where
  "high_density_threshold L gdf = quantile L (map housing_density gdf) (7 / 10)"

definition developed :: "'g lib \<Rightarrow> 'g region list \<Rightarrow> 'g region list option" where
  "developed L gdf =
     (case high_density_threshold L gdf of
        None \<Rightarrow> None
      | Some t \<Rightarrow> Some (filter (\<lambda>r. fge (housing_density r) t) gdf))"

section \<open>Hot zones (lines 42 to 60)\<close>

text \<open>
  \<^verbatim>\<open>to_crs(epsg=...)\<close> reprojects the geometry of every row and leaves the other
  columns alone; a missing geometry stays missing.
\<close>

definition to_crs_rows :: "'g lib \<Rightarrow> nat \<Rightarrow> 'g region list \<Rightarrow> 'g region list" where
  "to_crs_rows L epsg rows =
     map (\<lambda>r. r\<lparr>geometry := map_option (to_crs L epsg) (geometry r)\<rparr>) rows"

definition gdf_m :: "'g lib \<Rightarrow> 'g region list \<Rightarrow> 'g region list" where
  "gdf_m L gdf = to_crs_rows L 3857 gdf"

definition developed_m :: "'g lib \<Rightarrow> 'g region list \<Rightarrow> 'g region list option" where
  "developed_m L gdf = map_option (to_crs_rows L 3857) (developed L gdf)"

definition buffer_distance :: real where
  "buffer_distance = 10000"

text \<open>Lines 47 and 48: the high-density rows with their geometry buffered.\<close>

definition buffered :: "'g lib \<Rightarrow> 'g region list \<Rightarrow> 'g region list option" where
  "buffered L gdf =
     map_option
       (map (\<lambda>r. r\<lparr>geometry := map_option (\<lambda>g. buffer L g buffer_distance) (geometry r)\<rparr>))
       (developed_m L gdf)"

text \<open>\<^verbatim>\<open>buffered.unary_union\<close>: the union of the geometries that are present.\<close>

definition buffered_union :: "'g lib \<Rightarrow> 'g region list \<Rightarrow> 'g" where
  "buffered_union L rows = unary_union L (List.map_filter geometry rows)"

text \<open>
  \<^verbatim>\<open>geometry.intersects(u)\<close> on one row: False for a missing geometry.
\<close>

definition row_intersects :: "'g lib \<Rightarrow> 'g \<Rightarrow> 'g region \<Rightarrow> bool" where
  "row_intersects L u r = (case geometry r of None \<Rightarrow> False | Some g \<Rightarrow> intersects L g u)"

definition min_density :: pyfloat where
  "min_density = Fin 10"

definition max_density :: pyfloat where
  "max_density = Fin 200"

text \<open>Lines 51, 52 and 57 to 60: three selections, one after the other.\<close>

definition hot_zones_m :: "'g lib \<Rightarrow> 'g region list \<Rightarrow> 'g region list option" where
  "hot_zones_m L gdf =
     (case developed L gdf of
        None \<Rightarrow> None
      | Some dev \<Rightarrow>
          (case buffered L gdf of
             None \<Rightarrow> None
           | Some buf \<Rightarrow>
               (let hz1 = filter (row_intersects L (buffered_union L buf)) (gdf_m L gdf);
                    hz2 = filter (\<lambda>r. SA2_CODE21 r \<notin> set (map SA2_CODE21 dev)) hz1
                in Some (filter (\<lambda>r. fge (housing_density r) min_density
                                     \<and> fle (housing_density r) max_density) hz2))))"

section \<open>Display and export (lines 80 to 87)\<close>

text \<open>
  The three tables are reprojected to EPSG:4326 and the rows without a geometry are
  removed before they are drawn.
\<close>

definition to_export :: "'g lib \<Rightarrow> 'g region list \<Rightarrow> 'g region list" where
  "to_export L rows = filter (\<lambda>r. geometry r \<noteq> None) (to_crs_rows L 4326 rows)"


definition developed_f :: "'g lib \<Rightarrow> 'g region list \<Rightarrow> 'g region list option" where
  "developed_f L gdf = map_option (to_export L) (developed_m L gdf)"


section \<open>The coordinate reference systems\<close>





section \<open>The remainder of the classification\<close>

text \<open>
  Modelled from the spec: the script never builds the "other" partition of the
  classifier; the spec calls it the remainder. It is the rows of the joined table that
  are not in the high-density table.
\<close>

definition other :: "'g lib \<Rightarrow> 'g region list \<Rightarrow> 'g region list option" where
  "other L gdf =
     (case developed L gdf of
        None \<Rightarrow> None
      | Some dev \<Rightarrow> Some (filter (\<lambda>r. r \<notin> set dev) gdf))"

section \<open>The quantile with linear interpolation\<close>

text \<open>
  The arithmetic the interpolation needs, on the float values above: exact on finite
  values, IEEE 754 on the infinities and NaN; \<open>-0.0\<close> counts as zero.
\<close>

fun fadd :: "pyfloat \<Rightarrow> pyfloat \<Rightarrow> pyfloat" where
  "fadd NaN b = NaN"
| "fadd a NaN = NaN"
| "fadd (Fin a) (Fin b) = Fin (a + b)"
| "fadd (Fin a) NZero = Fin a"
| "fadd NZero (Fin b) = Fin b"
| "fadd NZero NZero = Fin 0"
| "fadd PInf NInf = NaN"
| "fadd NInf PInf = NaN"
| "fadd PInf b = PInf"
| "fadd a PInf = PInf"
| "fadd NInf b = NInf"
| "fadd a NInf = NInf"

fun fneg :: "pyfloat \<Rightarrow> pyfloat" where
  "fneg (Fin a) = Fin (- a)"
| "fneg NZero = Fin 0"
| "fneg PInf = NInf"
| "fneg NInf = PInf"
| "fneg NaN = NaN"

definition fsub :: "pyfloat \<Rightarrow> pyfloat \<Rightarrow> pyfloat" where
  "fsub a b = fadd a (fneg b)"

fun fmul :: "pyfloat \<Rightarrow> pyfloat \<Rightarrow> pyfloat" where
  "fmul NaN b = NaN"
| "fmul a NaN = NaN"
| "fmul (Fin a) (Fin b) = Fin (a * b)"
| "fmul (Fin a) NZero = Fin 0"
| "fmul NZero (Fin b) = Fin 0"
| "fmul NZero NZero = Fin 0"
| "fmul PInf NZero = NaN"
| "fmul NInf NZero = NaN"
| "fmul NZero PInf = NaN"
| "fmul NZero NInf = NaN"
| "fmul PInf (Fin b) = (if b = 0 then NaN else if 0 < b then PInf else NInf)"
| "fmul NInf (Fin b) = (if b = 0 then NaN else if 0 < b then NInf else PInf)"
| "fmul (Fin a) PInf = (if a = 0 then NaN else if 0 < a then PInf else NInf)"
| "fmul (Fin a) NInf = (if a = 0 then NaN else if 0 < a then NInf else PInf)"
| "fmul PInf PInf = PInf"
| "fmul NInf NInf = PInf"
| "fmul PInf NInf = NInf"
| "fmul NInf PInf = NInf"

text \<open>Ascending order of a column without NaN entries, by insertion.\<close>

fun insort_fl :: "pyfloat \<Rightarrow> pyfloat list \<Rightarrow> pyfloat list" where
  "insort_fl x [] = [x]"
| "insort_fl x (y # ys) = (if fle x y then x # y # ys else y # insort_fl x ys)"

definition sort_fl :: "pyfloat list \<Rightarrow> pyfloat list" where
  "sort_fl xs = foldr insort_fl xs []"

definition lerp :: "pyfloat \<Rightarrow> pyfloat \<Rightarrow> real \<Rightarrow> pyfloat" where
  "lerp a b t = fadd a (fmul (fsub b a) (Fin t))"

text \<open>
  Modelled from the spec: \<^verbatim>\<open>Series.quantile\<close> is pandas code, called at line 36 with
  its default interpolation. The spec describes it as the standard linear-interpolation
  quantile over the density column: the NaN entries are left out, the others are
  sorted, and the value at position \<open>(n - 1) * q\<close> is interpolated between its two
  neighbours. A column without values gives NaN; \<open>q\<close> outside \<open>[0, 1]\<close> raises
  ValueError, which is None here.
\<close>

definition quantile_linear :: "pyfloat list \<Rightarrow> real \<Rightarrow> pyfloat option" where
  "quantile_linear col q =
     (if q < 0 \<or> 1 < q then None
      else
        (let vs = sort_fl (filter (\<lambda>x. x \<noteq> NaN) col); n = length vs
         in if n = 0 then Some NaN
            else
              (let h = real (n - 1) * q; lo = nat \<lfloor>h\<rfloor>; hi = min (lo + 1) (n - 1)
               in Some (lerp (vs ! lo) (vs ! hi) (h - real lo)))))"

section \<open>A small instance\<close>

text \<open>
  For concrete runs: regions on a line. A geometry is a finite union of closed
  intervals, in one coordinate that every CRS shares; the quantile is the linear one.
\<close>

type_synonym segs = "(real \<times> real) list"

definition demo_lib :: "segs lib" where
  "demo_lib =
     \<lparr>astype_str = (\<lambda>c. case c of Text s \<Rightarrow> s | Num x \<Rightarrow> ''num'' | Missing \<Rightarrow> ''nan''),
      parse_num = map_of [(''10'', Fin 10), (''50'', Fin 50), (''200'', Fin 200),
                          (''400'', Fin 400), (''7'', Fin 7), (''30'', Fin 30)],
      quantile = quantile_linear,
      to_crs = (\<lambda>epsg g. g),
      buffer = (\<lambda>g d. map (\<lambda>(a, b). (a - d, b + d)) g),
      unary_union = concat,
      intersects = (\<lambda>g u. list_ex (\<lambda>(a, b). list_ex (\<lambda>(c, d). a \<le> d \<and> c \<le> b) u) g)\<rparr>"

definition demo_shp :: "(cell, segs) gdf_row list" where
  "demo_shp =
     [\<lparr>SA2_CODE21 = Text '' A'', AREASQKM21 = Fin 2, geometry = Some [(2000, 3000)]\<rparr>,
      \<lparr>SA2_CODE21 = Text ''B '', AREASQKM21 = Fin 1, geometry = Some [(5000, 6000)]\<rparr>,
      \<lparr>SA2_CODE21 = Text ''C'', AREASQKM21 = Fin 2, geometry = Some [(50000, 51000)]\<rparr>,
      \<lparr>SA2_CODE21 = Text ''D'', AREASQKM21 = Fin 1, geometry = Some [(0, 1000)]\<rparr>,
      \<lparr>SA2_CODE21 = Text ''E'', AREASQKM21 = Fin 0, geometry = Some [(20000, 20000)]\<rparr>,
      \<lparr>SA2_CODE21 = Text ''G'', AREASQKM21 = Fin 3, geometry = Some [(7000, 8000)]\<rparr>,
      \<lparr>SA2_CODE21 = Text ''H'', AREASQKM21 = Fin 1, geometry = Some [(8000, 9000)]\<rparr>,
      \<lparr>SA2_CODE21 = Text ''N'', AREASQKM21 = NaN, geometry = Some [(500, 600)]\<rparr>]"

definition demo_csv :: "(cell, cell) housing_row list" where
  "demo_csv =
     [\<lparr>SA2_CODE_2021 = Text ''A'', Total_Total = Text ''10''\<rparr>,
      \<lparr>SA2_CODE_2021 = Text '' B'', Total_Total = Text ''50''\<rparr>,
      \<lparr>SA2_CODE_2021 = Text ''C'', Total_Total = Num (Fin 200)\<rparr>,
      \<lparr>SA2_CODE_2021 = Text ''D'', Total_Total = Text ''400''\<rparr>,
      \<lparr>SA2_CODE_2021 = Text ''E'', Total_Total = Text ''7''\<rparr>,
      \<lparr>SA2_CODE_2021 = Text ''F'', Total_Total = Text ''30''\<rparr>,
      \<lparr>SA2_CODE_2021 = Text ''H'', Total_Total = Text ''n/a''\<rparr>,
      \<lparr>SA2_CODE_2021 = Text ''G'', Total_Total = Missing\<rparr>,
      \<lparr>SA2_CODE_2021 = Text ''N'', Total_Total = Text ''30''\<rparr>]"

text \<open>The joined table of this instance, row by row.\<close>

definition demo_row :: "string \<Rightarrow> pyfloat \<Rightarrow> real \<Rightarrow> real \<Rightarrow> real \<Rightarrow> pyfloat \<Rightarrow> segs region" where
  "demo_row k a lo hi c d =
     \<lparr>SA2_CODE21 = k, AREASQKM21 = a, geometry = Some [(lo, hi)],
      housing_cols = \<lparr>SA2_CODE_2021 = k, Total_Total = Fin c\<rparr>, housing_density = d\<rparr>"

definition demo_A :: "segs region" where
  "demo_A = demo_row ''A'' (Fin 2) 2000 3000 10 (Fin 5)"

definition demo_B :: "segs region" where
  "demo_B = demo_row ''B'' (Fin 1) 5000 6000 50 (Fin 50)"

definition demo_C :: "segs region" where
  "demo_C = demo_row ''C'' (Fin 2) 50000 51000 200 (Fin 100)"

definition demo_D :: "segs region" where
  "demo_D = demo_row ''D'' (Fin 1) 0 1000 400 (Fin 400)"

definition demo_E :: "segs region" where
  "demo_E = demo_row ''E'' (Fin 0) 20000 20000 7 PInf"

definition demo_N :: "segs region" where
  "demo_N = demo_row ''N'' NaN 500 600 30 NaN"

definition demo_gdf :: "segs region list" where
  "demo_gdf = [demo_A, demo_B, demo_C, demo_D, demo_E, demo_N]"

text \<open>The same instance with one more region, Z, whose area is \<open>-0.0\<close>.\<close>

definition demo_shp_z :: "(cell, segs) gdf_row list" where
  "demo_shp_z =
     demo_shp @ [\<lparr>SA2_CODE21 = Text ''Z'', AREASQKM21 = NZero, geometry = Some [(100, 200)]\<rparr>]"

definition demo_csv_z :: "(cell, cell) housing_row list" where
  "demo_csv_z = demo_csv @ [\<lparr>SA2_CODE_2021 = Text ''Z'', Total_Total = Text ''7''\<rparr>]"

definition demo_Z :: "segs region" where
  "demo_Z = demo_row ''Z'' NZero 100 200 7 NInf"

section \<open>Auxiliary facts\<close>

subsection \<open>Comparisons\<close>

lemma fge_NaN [simp]: "fge NaN t = False" "fge x NaN = False"
  by (cases t; simp add: fge_def) (cases x; simp add: fge_def)

lemma fge_refl: "t \<noteq> NaN \<Longrightarrow> fge t t"
  by (cases t) (simp_all add: fge_def)

lemma fge_PInf: "fge PInf t \<longleftrightarrow> t \<noteq> NaN"
  by (cases t) (simp_all add: fge_def)

lemma fge_NInf: "fge NInf t \<longleftrightarrow> t = NInf"
  by (cases t) (simp_all add: fge_def)

lemma band_finite:
  "fge x min_density \<and> fle x max_density \<longleftrightarrow> (\<exists>d. x = Fin d \<and> 10 \<le> d \<and> d \<le> 200)"
  by (cases x) (simp_all add: fge_def min_density_def max_density_def)

subsection \<open>The join\<close>

lemma set_merge_inner:
  "set (merge_inner G H) =
     {merge_row g h | g h. g \<in> set G \<and> h \<in> set H \<and> SA2_CODE_2021 h = SA2_CODE21 g}"
  by (auto simp: merge_inner_def)

lemma keys_merge_inner:
  "SA2_CODE21 ` set (merge_inner G H) = SA2_CODE21 ` set G \<inter> SA2_CODE_2021 ` set H"
  by (force simp: set_merge_inner merge_row_def image_iff)

lemma keys_add_housing_density:
  "SA2_CODE21 ` set (add_housing_density M) = SA2_CODE21 ` set M"
  by (force simp: add_housing_density_def image_iff)

lemma housing_clean_eq:
  "housing_clean L housing =
     map (\<lambda>h. \<lparr>SA2_CODE_2021 = strip (astype_str L (SA2_CODE_2021 h)),
               Total_Total = to_numeric_coerce L (Total_Total h)\<rparr>)
       (filter (\<lambda>h. to_numeric_coerce L (Total_Total h) \<noteq> NaN) housing)"
  by (simp add: housing_clean_def dropna_def housing_to_numeric_def housing_strip_def
        filter_map o_def)

lemma gdf_joined_D:
  assumes "r \<in> set (gdf_joined L gdf housing)"
  shows "\<exists>g h. g \<in> set (gdf_strip L gdf) \<and> h \<in> set (housing_clean L housing) \<and>
     SA2_CODE_2021 h = SA2_CODE21 g \<and>
     SA2_CODE21 r = SA2_CODE21 g \<and> AREASQKM21 r = AREASQKM21 g \<and> geometry r = geometry g \<and>
     housing_cols r = h \<and> housing_density r = fdiv (Total_Total h) (AREASQKM21 g)"
  using assms
  by (auto simp: gdf_joined_def add_housing_density_def set_merge_inner merge_row_def)

subsection \<open>The selections\<close>

lemma developed_SomeD:
  "developed L gdf = Some dev \<Longrightarrow>
     \<exists>t. high_density_threshold L gdf = Some t \<and> dev = filter (\<lambda>r. fge (housing_density r) t) gdf"
  by (auto simp: developed_def split: option.splits)

lemma other_SomeD:
  "other L gdf = Some oth \<Longrightarrow>
    \<exists>dev. developed L gdf = Some dev \<and> oth = filter (\<lambda>r. r \<notin> set dev) gdf"
  by (auto simp: other_def split: option.splits)

lemma mset_filter_partition:
  "mset (filter P xs) + mset (filter (\<lambda>x. x \<notin> set (filter P xs)) xs) = mset xs"
proof -
  have "filter (\<lambda>x. x \<notin> set (filter P xs)) xs = filter (\<lambda>x. \<not> P x) xs"
    by (rule filter_cong) auto
  then show ?thesis by simp
qed

lemma map_filter_map: "List.map_filter f (map g xs) = List.map_filter (\<lambda>x. f (g x)) xs"
  by (induction xs) (simp_all add: List.map_filter_simps split: option.splits)

lemma buffered_union_eq:
  "developed L gdf = Some dev \<Longrightarrow>
   \<exists>buf. buffered L gdf = Some buf \<and>
     buffered_union L buf =
       unary_union L (List.map_filter
          (\<lambda>z. map_option (\<lambda>p. buffer L (to_crs L 3857 p) 10000) (geometry z)) dev)"
  by (simp add: buffered_def developed_m_def buffered_union_def to_crs_rows_def
        buffer_distance_def map_filter_map option.map_comp o_def)

lemma hot_zones_m_SomeD:
  "hot_zones_m L gdf = Some hz \<Longrightarrow>
     \<exists>dev buf. developed L gdf = Some dev \<and> buffered L gdf = Some buf \<and>
       hz = filter (\<lambda>r. fge (housing_density r) min_density \<and> fle (housing_density r) max_density)
             (filter (\<lambda>r. SA2_CODE21 r \<notin> set (map SA2_CODE21 dev))
               (filter (row_intersects L (buffered_union L buf)) (gdf_m L gdf)))"
  by (auto simp: hot_zones_m_def Let_def split: option.splits)

lemma hot_zones_m_total:
  "developed L gdf = Some dev \<Longrightarrow> \<exists>hz. hot_zones_m L gdf = Some hz"
  by (simp add: hot_zones_m_def buffered_def developed_m_def Let_def)


lemma hot_zones_m_finite_density:
  "hot_zones_m L gdf = Some hz \<Longrightarrow> z \<in> set hz \<Longrightarrow> \<exists>d. housing_density z = Fin d"
  using band_finite by (auto dest!: hot_zones_m_SomeD)



lemma hot_zones_m_ids:
  "hot_zones_m L gdf = Some hz \<Longrightarrow> developed L gdf = Some dev \<Longrightarrow> z \<in> set hz \<Longrightarrow>
     SA2_CODE21 z \<notin> SA2_CODE21 ` set dev"
  by (auto dest!: hot_zones_m_SomeD)

subsection \<open>The linear quantile\<close>

lemma quantile_linear_Some:
  "0 \<le> q \<Longrightarrow> q \<le> 1 \<Longrightarrow> \<exists>t. quantile_linear col q = Some t"
  by (simp add: quantile_linear_def Let_def)

lemma insort_fl_least:
  "\<forall>y \<in> set ys. x \<le> y \<Longrightarrow> insort_fl (Fin x) (map Fin ys) = Fin x # map Fin ys"
  by (cases ys) simp_all

lemma sort_fl_sorted: "sorted xs \<Longrightarrow> sort_fl (map Fin xs) = map Fin xs"
proof (induction xs)
  case Nil
  then show ?case by (simp add: sort_fl_def)
next
  case (Cons x xs)
  then have "sort_fl (map Fin xs) = map Fin xs" by simp
  moreover have "sort_fl (map Fin (x # xs)) = insort_fl (Fin x) (sort_fl (map Fin xs))"
    by (simp add: sort_fl_def)
  ultimately show ?case using Cons.prems by (simp add: insort_fl_least)
qed

lemma filter_NaN_Fin: "filter (\<lambda>x. x \<noteq> NaN) (map Fin xs) = map Fin xs"
  by (induction xs) simp_all

lemma lerp_Fin: "lerp (Fin a) (Fin b) t = Fin (a + (b - a) * t)"
  by (simp add: lerp_def fsub_def)

text \<open>
  On a column of finite values in ascending order the model is the textbook formula:
  the value at position \<open>h = (n - 1) * q\<close>, interpolated between the entries at
  \<open>\<lfloor>h\<rfloor>\<close> and \<open>\<lfloor>h\<rfloor> + 1\<close>.
\<close>

lemma quantile_linear_sorted:
  assumes "sorted xs" and "xs \<noteq> []" and "0 \<le> q" and "q \<le> 1"
  shows "quantile_linear (map Fin xs) q =
     (let h = real (length xs - 1) * q; lo = nat \<lfloor>h\<rfloor>; hi = min (lo + 1) (length xs - 1)
      in Some (Fin (xs ! lo + (xs ! hi - xs ! lo) * (h - real lo))))"
proof -
  let ?n = "length xs"
  let ?h = "real (?n - 1) * q"
  let ?lo = "nat \<lfloor>?h\<rfloor>"
  let ?hi = "min (?lo + 1) (?n - 1)"
  have "?h \<le> real (?n - 1)" using assms(3,4) by (simp add: mult_left_le)
  then have "\<lfloor>?h\<rfloor> \<le> int (?n - 1)" by linarith
  then have lo: "?lo < ?n" using assms(2) by (cases xs) auto
  have hi: "?hi < ?n" using assms(2) by (cases xs) auto
  show ?thesis
    using assms lo hi
    by (simp add: quantile_linear_def filter_NaN_Fin sort_fl_sorted Let_def lerp_Fin)
qed

lemma quantile_1_to_100:
  "quantile_linear (map (\<lambda>i. Fin (real i)) [1..<101]) (7 / 10) = Some (Fin (703 / 10))"
  by code_simp

lemma labels_1_to_100:
  "filter (\<lambda>x. fge x (Fin (703 / 10))) (map (\<lambda>i. Fin (real i)) [1..<101]) =
     map (\<lambda>i. Fin (real i)) [71..<101]"
  by code_simp

subsection \<open>The run of the small instance\<close>

lemmas demo_rows =
  demo_gdf_def demo_A_def demo_B_def demo_C_def demo_D_def demo_E_def demo_N_def demo_row_def

lemma demo_quantile: "quantile demo_lib = quantile_linear"
  by (simp add: demo_lib_def)

lemma demo_joined: "gdf_joined demo_lib demo_shp demo_csv = demo_gdf"
  by code_simp

lemma demo_threshold: "high_density_threshold demo_lib demo_gdf = Some (Fin 340)"
  by code_simp

lemma demo_developed: "developed demo_lib demo_gdf = Some [demo_D, demo_E]"
  by code_simp

lemma demo_hot_zones: "hot_zones_m demo_lib demo_gdf = Some [demo_B]"
  by code_simp

lemma demo_other: "other demo_lib demo_gdf = Some [demo_A, demo_B, demo_C, demo_N]"
  by code_simp

lemma demo_joined_z: "gdf_joined demo_lib demo_shp_z demo_csv_z = demo_gdf @ [demo_Z]"
  by code_simp

lemma demo_threshold_z: "high_density_threshold demo_lib (demo_gdf @ [demo_Z]) = Some (Fin 250)"
  by code_simp

lemma demo_parse: "parse_num demo_lib ''n/a'' = None"
  by (simp add: demo_lib_def)

section \<open>Loading and joining\<close>

text \<open>
  C9. A row of the census table whose \<open>Total_Total\<close> is missing or does not read as a
  number is dropped before the merge, and nothing is raised: the cleaned table and the
  joined table are those of the census table without that row, and no row of the
  cleaned table has a NaN count.
\<close>

theorem non_numeric_rows_dropped:
  assumes "Total_Total h = Missing \<or> Total_Total h = Num NaN \<or>
           (\<exists>s. Total_Total h = Text s \<and> parse_num L s = None)"
  shows "to_numeric_coerce L (Total_Total h) = NaN \<and>
         housing_clean L (pre @ h # post) = housing_clean L (pre @ post) \<and>
         gdf_joined L gdf (pre @ h # post) = gdf_joined L gdf (pre @ post) \<and>
         (\<forall>k \<in> set (housing_clean L (pre @ h # post)). Total_Total k \<noteq> NaN)"
proof -
  from assms have n: "to_numeric_coerce L (Total_Total h) = NaN"
    by (auto simp: to_numeric_coerce_def)
  then have c: "housing_clean L (pre @ h # post) = housing_clean L (pre @ post)"
    by (simp add: housing_clean_eq)
  then have "gdf_joined L gdf (pre @ h # post) = gdf_joined L gdf (pre @ post)"
    by (simp add: gdf_joined_def)
  moreover have "\<forall>k \<in> set (housing_clean L (pre @ h # post)). Total_Total k \<noteq> NaN"
    by (simp add: housing_clean_def dropna_def)
  ultimately show ?thesis using n c by blast
qed

theorem non_numeric_rows_dropped_witness:
  "Total_Total \<lparr>SA2_CODE_2021 = Text ''H'', Total_Total = Text ''n/a''\<rparr> = Text ''n/a'' \<and>
   parse_num demo_lib ''n/a'' = None \<and>
   gdf_joined demo_lib demo_shp
     (take 6 demo_csv @ \<lparr>SA2_CODE_2021 = Text ''H'', Total_Total = Text ''n/a''\<rparr> #
      drop 7 demo_csv) =
   gdf_joined demo_lib demo_shp (take 6 demo_csv @ drop 7 demo_csv)"
  using non_numeric_rows_dropped
    [of "\<lparr>SA2_CODE_2021 = Text ''H'', Total_Total = Text ''n/a''\<rparr>" demo_lib
        "take 6 demo_csv" "drop 7 demo_csv" demo_shp]
    demo_parse
  by simp

text \<open>
  C6. The merge is an inner join on the normalised key. Its rows are the pairs of a
  boundary row and a census row with equal keys, so the keys of the joined table are
  the keys that both tables have: a region of one table only is absent, a region of both
  is present. The keys compared are the stripped text of the raw keys; the census table
  is the one that reaches the merge, after the non-numeric rows are dropped.
\<close>

theorem merge_is_inner_join:
  "set (merge_inner (gdf_strip L gdf) (housing_clean L housing)) =
     {merge_row g h | g h. g \<in> set (gdf_strip L gdf) \<and> h \<in> set (housing_clean L housing)
                          \<and> SA2_CODE_2021 h = SA2_CODE21 g} \<and>
   SA2_CODE21 ` set (gdf_joined L gdf housing) =
     SA2_CODE21 ` set (gdf_strip L gdf) \<inter> SA2_CODE_2021 ` set (housing_clean L housing) \<and>
   SA2_CODE21 ` set (gdf_strip L gdf) = (\<lambda>g. strip (astype_str L (SA2_CODE21 g))) ` set gdf \<and>
   SA2_CODE_2021 ` set (housing_clean L housing) =
     (\<lambda>h. strip (astype_str L (SA2_CODE_2021 h))) `
       {h \<in> set housing. to_numeric_coerce L (Total_Total h) \<noteq> NaN}"
proof -
  have a: "set (merge_inner (gdf_strip L gdf) (housing_clean L housing)) =
     {merge_row g h | g h. g \<in> set (gdf_strip L gdf) \<and> h \<in> set (housing_clean L housing)
                          \<and> SA2_CODE_2021 h = SA2_CODE21 g}"
    by (rule set_merge_inner)
  have b: "SA2_CODE21 ` set (gdf_joined L gdf housing) =
     SA2_CODE21 ` set (gdf_strip L gdf) \<inter> SA2_CODE_2021 ` set (housing_clean L housing)"
    by (simp only: gdf_joined_def keys_add_housing_density keys_merge_inner)
  have c: "SA2_CODE21 ` set (gdf_strip L gdf) =
     (\<lambda>g. strip (astype_str L (SA2_CODE21 g))) ` set gdf"
    by (force simp: gdf_strip_def image_iff)
  have d: "SA2_CODE_2021 ` set (housing_clean L housing) =
     (\<lambda>h. strip (astype_str L (SA2_CODE_2021 h))) `
       {h \<in> set housing. to_numeric_coerce L (Total_Total h) \<noteq> NaN}"
    by (force simp: housing_clean_eq image_iff)
  from a b c d show ?thesis by (intro conjI)
qed

theorem merge_is_inner_join_witness:
  "SA2_CODE21 ` set (gdf_strip demo_lib demo_shp) \<inter>
   SA2_CODE_2021 ` set (housing_clean demo_lib demo_csv) =
     {''A'', ''B'', ''C'', ''D'', ''E'', ''N''}"
  using merge_is_inner_join [of demo_lib demo_shp demo_csv]
  by (simp add: demo_joined demo_rows)

text \<open>
  C3. The density of every joined row is its count divided by its area: the count of
  the census row and the area of the boundary row it was merged from. For a finite count
  and a finite non-zero area this is the quotient of the two numbers.
\<close>

theorem density_is_count_over_area:
  assumes "r \<in> set (gdf_joined L gdf housing)"
  shows "housing_density r = fdiv (Total_Total (housing_cols r)) (AREASQKM21 r) \<and>
         (\<exists>g h. g \<in> set (gdf_strip L gdf) \<and> h \<in> set (housing_clean L housing) \<and>
            SA2_CODE_2021 h = SA2_CODE21 g \<and> SA2_CODE21 r = SA2_CODE21 g \<and>
            housing_density r = fdiv (Total_Total h) (AREASQKM21 g)) \<and>
         (\<forall>c a. Total_Total (housing_cols r) = Fin c \<and> AREASQKM21 r = Fin a \<and> a \<noteq> 0
            \<longrightarrow> housing_density r = Fin (c / a))"
proof -
  from gdf_joined_D[OF assms] obtain g h where
    gh: "g \<in> set (gdf_strip L gdf)" "h \<in> set (housing_clean L housing)"
        "SA2_CODE_2021 h = SA2_CODE21 g" "SA2_CODE21 r = SA2_CODE21 g"
        "AREASQKM21 r = AREASQKM21 g" "housing_cols r = h"
        "housing_density r = fdiv (Total_Total h) (AREASQKM21 g)"
    by blast
  then have d: "housing_density r = fdiv (Total_Total (housing_cols r)) (AREASQKM21 r)"
    by simp
  have "\<forall>c a. Total_Total (housing_cols r) = Fin c \<and> AREASQKM21 r = Fin a \<and> a \<noteq> 0
            \<longrightarrow> housing_density r = Fin (c / a)"
    using d by simp
  with d gh show ?thesis by blast
qed

theorem density_is_count_over_area_witness:
  "demo_B \<in> set (gdf_joined demo_lib demo_shp demo_csv) \<and>
   Total_Total (housing_cols demo_B) = Fin 50 \<and> AREASQKM21 demo_B = Fin 1 \<and>
   housing_density demo_B = Fin (50 / 1)"
  using density_is_count_over_area [of demo_B demo_lib demo_shp demo_csv]
  by (simp add: demo_joined demo_rows)

section \<open>The classifier\<close>

text \<open>
  C2. With the linear quantile for \<open>Series.quantile\<close>, the threshold is the 0.70
  quantile of the density column, and the high-density table is exactly the rows whose
  density is greater than or equal to it; a density equal to the threshold passes. On
  the column 1, 2, ..., 100 the threshold is 70.3 and the values 71 to 100 pass.
\<close>

theorem threshold_is_linear_quantile:
  assumes "quantile L = quantile_linear"
  shows "(\<exists>t. quantile_linear (map housing_density gdf) (7 / 10) = Some t \<and>
              high_density_threshold L gdf = Some t \<and>
              developed L gdf = Some (filter (\<lambda>r. fge (housing_density r) t) gdf) \<and>
              (t \<noteq> NaN \<longrightarrow> fge t t)) \<and>
         quantile_linear (map (\<lambda>i. Fin (real i)) [1..<101]) (7 / 10) = Some (Fin (703 / 10)) \<and>
         filter (\<lambda>x. fge x (Fin (703 / 10))) (map (\<lambda>i. Fin (real i)) [1..<101]) =
           map (\<lambda>i. Fin (real i)) [71..<101]"
proof -
  from quantile_linear_Some[of "7/10" "map housing_density gdf"]
  obtain t where t: "quantile_linear (map housing_density gdf) (7 / 10) = Some t" by auto
  with assms have h: "high_density_threshold L gdf = Some t"
    by (simp add: high_density_threshold_def)
  then have "developed L gdf = Some (filter (\<lambda>r. fge (housing_density r) t) gdf)"
    by (simp add: developed_def)
  with t h fge_refl[of t] quantile_1_to_100 labels_1_to_100 show ?thesis by blast
qed

theorem threshold_is_linear_quantile_witness:
  "quantile demo_lib = quantile_linear \<and>
   quantile_linear (map housing_density demo_gdf) (7 / 10) = Some (Fin 340) \<and>
   high_density_threshold demo_lib demo_gdf = Some (Fin 340) \<and>
   developed demo_lib demo_gdf =
     Some (filter (\<lambda>r. fge (housing_density r) (Fin 340)) demo_gdf) \<and>
   Fin 340 \<noteq> NaN \<and> fge (Fin 340) (Fin 340)"
  using threshold_is_linear_quantile [OF demo_quantile, of demo_gdf] demo_quantile demo_threshold
  by auto

text \<open>
  C5. The high-density table and the remainder are disjoint and together make up the
  joined table: every joined row, with all its columns, is in exactly one of the two.
\<close>

theorem developed_other_partition:
  assumes "developed L gdf = Some dev" and "other L gdf = Some oth"
  shows "set dev \<inter> set oth = {} \<and> set dev \<union> set oth = set gdf \<and>
         mset dev + mset oth = mset gdf"
proof -
  from developed_SomeD[OF assms(1)] obtain t where
    dev: "dev = filter (\<lambda>r. fge (housing_density r) t) gdf" by blast
  from other_SomeD[OF assms(2)] assms(1) have oth: "oth = filter (\<lambda>r. r \<notin> set dev) gdf"
    by simp
  have "mset dev + mset oth = mset gdf"
    unfolding oth unfolding dev by (rule mset_filter_partition)
  moreover have "set dev \<inter> set oth = {}" using oth by auto
  moreover have "set dev \<union> set oth = set gdf" using oth dev by auto
  ultimately show ?thesis by blast
qed

theorem developed_other_partition_witness:
  "developed demo_lib demo_gdf = Some [demo_D, demo_E] \<and>
   other demo_lib demo_gdf = Some [demo_A, demo_B, demo_C, demo_N] \<and>
   mset [demo_D, demo_E] + mset [demo_A, demo_B, demo_C, demo_N] = mset demo_gdf"
  using developed_other_partition [OF demo_developed demo_other] demo_developed demo_other
  by simp

text \<open>
  C7, as the script has it. A joined region of area zero and positive count does not
  stop the run: once the quantile call has returned a threshold, the high-density and
  the growth-ready table are produced. Its density is plus infinity for an area of
  \<open>+0.0\<close> and minus infinity for an area of \<open>-0.0\<close>, and the script compares it with
  the threshold like any other density: with plus infinity the region is in the
  high-density table exactly when the threshold is not NaN, with minus infinity exactly
  when the threshold is minus infinity. Its row is never growth-ready, and when it is
  high-density its identifier is not among the growth-ready ones.
\<close>

theorem zero_area_region_classified:
  assumes "high_density_threshold L (gdf_joined L gdf housing) = Some t"
    and "r \<in> set (gdf_joined L gdf housing)"
    and "AREASQKM21 r = Fin 0 \<or> AREASQKM21 r = NZero"
    and "Total_Total (housing_cols r) = Fin c" and "0 < c"
  shows "housing_density r = (if AREASQKM21 r = NZero then NInf else PInf) \<and>
         (\<exists>dev hz. developed L (gdf_joined L gdf housing) = Some dev \<and>
            hot_zones_m L (gdf_joined L gdf housing) = Some hz \<and>
            (r \<in> set dev \<longleftrightarrow> (if AREASQKM21 r = NZero then t = NInf else t \<noteq> NaN)) \<and>
            (r \<in> set dev \<longrightarrow> SA2_CODE21 r \<notin> SA2_CODE21 ` set hz) \<and>
            r\<lparr>geometry := map_option (to_crs L 3857) (geometry r)\<rparr> \<notin> set hz)"
proof -
  let ?J = "gdf_joined L gdf housing"
  let ?dev = "filter (\<lambda>r. fge (housing_density r) t) ?J"
  from gdf_joined_D[OF assms(2)]
  have "housing_density r = fdiv (Total_Total (housing_cols r)) (AREASQKM21 r)"
    by auto
  with assms(3,4,5)
  have d: "housing_density r = (if AREASQKM21 r = NZero then NInf else PInf)"
    by auto
  from assms(1) have dev: "developed L ?J = Some ?dev"
    by (simp add: developed_def)
  from hot_zones_m_total[OF dev] obtain hz where hz: "hot_zones_m L ?J = Some hz" by blast
  have m: "r \<in> set ?dev \<longleftrightarrow> (if AREASQKM21 r = NZero then t = NInf else t \<noteq> NaN)"
    using assms(2) d by (simp add: fge_PInf fge_NInf)
  have i: "r \<in> set ?dev \<longrightarrow> SA2_CODE21 r \<notin> SA2_CODE21 ` set hz"
  proof (intro impI notI)
    assume "r \<in> set ?dev" and "SA2_CODE21 r \<in> SA2_CODE21 ` set hz"
    then obtain z where z: "z \<in> set hz" "SA2_CODE21 z = SA2_CODE21 r" by auto
    from hot_zones_m_ids[OF hz dev z(1)] z(2)
    have "SA2_CODE21 r \<notin> SA2_CODE21 ` set ?dev"
      by simp
    with \<open>r \<in> set ?dev\<close> show False by blast
  qed
  have n: "r\<lparr>geometry := map_option (to_crs L 3857) (geometry r)\<rparr> \<notin> set hz"
  proof
    assume "r\<lparr>geometry := map_option (to_crs L 3857) (geometry r)\<rparr> \<in> set hz"
    from hot_zones_m_finite_density[OF hz this] d show False
      by (auto split: if_splits)
  qed
  from d dev hz m i n show ?thesis by blast
qed

theorem zero_area_region_classified_witness:
  "(high_density_threshold demo_lib (gdf_joined demo_lib demo_shp demo_csv) = Some (Fin 340) \<and>
    demo_E \<in> set (gdf_joined demo_lib demo_shp demo_csv) \<and>
    AREASQKM21 demo_E = Fin 0 \<and> Total_Total (housing_cols demo_E) = Fin 7 \<and> (0::real) < 7 \<and>
    housing_density demo_E = PInf \<and>
    (\<exists>dev hz. developed demo_lib (gdf_joined demo_lib demo_shp demo_csv) = Some dev \<and>
       hot_zones_m demo_lib (gdf_joined demo_lib demo_shp demo_csv) = Some hz \<and>
       demo_E \<in> set dev \<and> SA2_CODE21 demo_E \<notin> SA2_CODE21 ` set hz)) \<and>
   (high_density_threshold demo_lib (gdf_joined demo_lib demo_shp_z demo_csv_z) = Some (Fin 250) \<and>
    demo_Z \<in> set (gdf_joined demo_lib demo_shp_z demo_csv_z) \<and>
    AREASQKM21 demo_Z = NZero \<and> Total_Total (housing_cols demo_Z) = Fin 7 \<and>
    housing_density demo_Z = NInf \<and>
    (\<exists>dev hz. developed demo_lib (gdf_joined demo_lib demo_shp_z demo_csv_z) = Some dev \<and>
       hot_zones_m demo_lib (gdf_joined demo_lib demo_shp_z demo_csv_z) = Some hz \<and>
       demo_Z \<notin> set dev \<and>
       demo_Z\<lparr>geometry := map_option (to_crs demo_lib 3857) (geometry demo_Z)\<rparr> \<notin> set hz))"
proof -
  have t: "high_density_threshold demo_lib (gdf_joined demo_lib demo_shp demo_csv) = Some (Fin 340)"
    by (simp add: demo_joined demo_threshold)
  have m: "demo_E \<in> set (gdf_joined demo_lib demo_shp demo_csv)"
    by (simp add: demo_joined demo_gdf_def)
  have a: "AREASQKM21 demo_E = Fin 0" and c: "Total_Total (housing_cols demo_E) = Fin 7"
    by (simp_all add: demo_E_def demo_row_def)
  have tz: "high_density_threshold demo_lib (gdf_joined demo_lib demo_shp_z demo_csv_z) =
      Some (Fin 250)"
    by (simp add: demo_joined_z demo_threshold_z)
  have mz: "demo_Z \<in> set (gdf_joined demo_lib demo_shp_z demo_csv_z)"
    by (simp add: demo_joined_z)
  have az: "AREASQKM21 demo_Z = NZero" and cz: "Total_Total (housing_cols demo_Z) = Fin 7"
    by (simp_all add: demo_Z_def demo_row_def)
  from zero_area_region_classified [OF t m disjI1 [OF a] c]
  have 1: "housing_density demo_E = PInf \<and>
    (\<exists>dev hz. developed demo_lib (gdf_joined demo_lib demo_shp demo_csv) = Some dev \<and>
       hot_zones_m demo_lib (gdf_joined demo_lib demo_shp demo_csv) = Some hz \<and>
       demo_E \<in> set dev \<and> SA2_CODE21 demo_E \<notin> SA2_CODE21 ` set hz)"
    using a by auto
  from zero_area_region_classified [OF tz mz disjI2 [OF az] cz]
  have 2: "housing_density demo_Z = NInf \<and>
    (\<exists>dev hz. developed demo_lib (gdf_joined demo_lib demo_shp_z demo_csv_z) = Some dev \<and>
       hot_zones_m demo_lib (gdf_joined demo_lib demo_shp_z demo_csv_z) = Some hz \<and>
       demo_Z \<notin> set dev \<and>
       demo_Z\<lparr>geometry := map_option (to_crs demo_lib 3857) (geometry demo_Z)\<rparr> \<notin> set hz)"
    using az by auto
  from t m a c 1 tz mz az cz 2 show ?thesis by simp
qed

text \<open>
  C7, as the claim states it, fails: in the small instance region E has area 0 and
  count 7, its density is plus infinity, the threshold is 340, and E is in the
  high-density table.
\<close>

theorem zero_area_region_high_density_counterexample:
  "demo_E \<in> set (gdf_joined demo_lib demo_shp demo_csv) \<and>
   AREASQKM21 demo_E = Fin 0 \<and> Total_Total (housing_cols demo_E) = Fin 7 \<and>
   housing_density demo_E = PInf \<and>
   high_density_threshold demo_lib (gdf_joined demo_lib demo_shp demo_csv) = Some (Fin 340) \<and>
   developed demo_lib (gdf_joined demo_lib demo_shp demo_csv) = Some [demo_D, demo_E]"
  by (simp add: demo_joined demo_threshold demo_developed) (simp add: demo_rows)

text \<open>
  C10. A joined region whose density is NaN fails every comparison with a threshold
  and every band test. It is not in the high-density table, its reprojected row is not
  in the growth-ready table, and no growth-ready row has a NaN density.
\<close>

theorem nan_density_is_other:
  assumes "r \<in> set gdf" and "housing_density r = NaN"
  shows "(\<forall>t. \<not> fge (housing_density r) t) \<and>
         (\<forall>lo hi. \<not> (fge (housing_density r) lo \<and> fle (housing_density r) hi)) \<and>
         (\<forall>dev. developed L gdf = Some dev \<longrightarrow> r \<notin> set dev) \<and>
         (\<forall>hz. hot_zones_m L gdf = Some hz \<longrightarrow>
            r\<lparr>geometry := map_option (to_crs L 3857) (geometry r)\<rparr> \<notin> set hz \<and>
            (\<forall>z \<in> set hz. housing_density z \<noteq> NaN))"
proof -
  have 1: "\<forall>t. \<not> fge (housing_density r) t" using assms(2) by simp
  have 3: "\<forall>dev. developed L gdf = Some dev \<longrightarrow> r \<notin> set dev"
    using assms(2) by (auto dest!: developed_SomeD)
  have 4: "\<forall>hz. hot_zones_m L gdf = Some hz \<longrightarrow>
            r\<lparr>geometry := map_option (to_crs L 3857) (geometry r)\<rparr> \<notin> set hz \<and>
            (\<forall>z \<in> set hz. housing_density z \<noteq> NaN)"
    using assms(2) by (auto dest!: hot_zones_m_SomeD)
  from 1 3 4 show ?thesis by blast
qed

theorem nan_density_is_other_witness:
  "demo_N \<in> set demo_gdf \<and> housing_density demo_N = NaN \<and>
   developed demo_lib demo_gdf = Some [demo_D, demo_E] \<and> demo_N \<notin> set [demo_D, demo_E] \<and>
   hot_zones_m demo_lib demo_gdf = Some [demo_B] \<and>
   demo_N\<lparr>geometry := map_option (to_crs demo_lib 3857) (geometry demo_N)\<rparr> \<notin> set [demo_B]"
  using nan_density_is_other [of demo_N demo_gdf demo_lib] demo_developed demo_hot_zones
  by (simp add: demo_rows)

section \<open>The growth-ready regions\<close>

text \<open>
  C1. Every region of the growth-ready result has a density in the closed interval
  from \<open>min_density = 10\<close> to \<open>max_density = 200\<close>, and its geometry intersects the
  union of the buffers (of 10000 metres, in EPSG:3857) around the high-density regions.
\<close>

theorem hot_zones_in_band_and_buffer:
  assumes "hot_zones_m L gdf = Some hz" and "r \<in> set hz"
  shows "(\<exists>d. housing_density r = Fin d \<and> 10 \<le> d \<and> d \<le> 200) \<and>
         (\<exists>dev g. developed L gdf = Some dev \<and> geometry r = Some g \<and>
            intersects L g
              (unary_union L (List.map_filter
                 (\<lambda>z. map_option (\<lambda>p. buffer L (to_crs L 3857 p) 10000) (geometry z)) dev)))"
proof -
  from assms(1) obtain dev buf where
    dev: "developed L gdf = Some dev" and buf: "buffered L gdf = Some buf" and
    hz: "hz = filter (\<lambda>r. fge (housing_density r) min_density \<and> fle (housing_density r) max_density)
             (filter (\<lambda>r. SA2_CODE21 r \<notin> set (map SA2_CODE21 dev))
               (filter (row_intersects L (buffered_union L buf)) (gdf_m L gdf)))"
    using hot_zones_m_SomeD by blast
  from assms(2) hz
  have band: "fge (housing_density r) min_density \<and> fle (housing_density r) max_density"
    and inter: "row_intersects L (buffered_union L buf) r"
    by auto
  from band have 1: "\<exists>d. housing_density r = Fin d \<and> 10 \<le> d \<and> d \<le> 200"
    by (simp only: band_finite)
  from buffered_union_eq[OF dev] buf have u:
    "buffered_union L buf = unary_union L (List.map_filter
          (\<lambda>z. map_option (\<lambda>p. buffer L (to_crs L 3857 p) 10000) (geometry z)) dev)"
    by simp
  from inter obtain g where "geometry r = Some g" "intersects L g (buffered_union L buf)"
    by (auto simp: row_intersects_def split: option.splits)
  with u dev have 2: "\<exists>dev g. developed L gdf = Some dev \<and> geometry r = Some g \<and>
            intersects L g
              (unary_union L (List.map_filter
                 (\<lambda>z. map_option (\<lambda>p. buffer L (to_crs L 3857 p) 10000) (geometry z)) dev))"
    by auto
  from 1 2 show ?thesis by blast
qed

theorem hot_zones_in_band_and_buffer_witness:
  "hot_zones_m demo_lib demo_gdf = Some [demo_B] \<and> housing_density demo_B = Fin 50 \<and>
   (\<exists>dev g. developed demo_lib demo_gdf = Some dev \<and> geometry demo_B = Some g \<and>
      intersects demo_lib g
        (unary_union demo_lib (List.map_filter
           (\<lambda>z. map_option (\<lambda>p. buffer demo_lib (to_crs demo_lib 3857 p) 10000) (geometry z))
           dev)))"
  using hot_zones_in_band_and_buffer [OF demo_hot_zones, of demo_B] demo_hot_zones
  by (simp add: demo_row_def demo_B_def)

text \<open>
  C4. No identifier of the growth-ready result is an identifier of the high-density
  table: the two sets of identifiers are disjoint.
\<close>

theorem hot_zones_exclude_developed_ids:
  assumes "hot_zones_m L gdf = Some hz" and "developed L gdf = Some dev"
  shows "set (map SA2_CODE21 hz) \<inter> set (map SA2_CODE21 dev) = {}"
  using hot_zones_m_SomeD[OF assms(1)] assms(2) by auto

theorem hot_zones_exclude_developed_ids_witness:
  "hot_zones_m demo_lib demo_gdf = Some [demo_B] \<and>
   developed demo_lib demo_gdf = Some [demo_D, demo_E] \<and>
   set (map SA2_CODE21 [demo_B]) \<inter> set (map SA2_CODE21 [demo_D, demo_E]) = {}"
  using hot_zones_exclude_developed_ids [OF demo_hot_zones demo_developed]
    demo_hot_zones demo_developed
  by simp

section \<open>The coordinate reference systems of the geometric steps\<close>



end
